theory Spec2Isabelle
  imports Main "HOL-Library.Word"
begin

section \<open>The code editor wrapper widget (packages/codeeditor/src/widget.ts)\<close>

subsection \<open>JavaScript strings and the leading-whitespace test\<close>

text \<open>
  A JavaScript string is a sequence of UTF-16 code units; \<^verbatim>\<open>slice\<close> and a
  regular expression without the \<^verbatim>\<open>u\<close> flag both count code units.
\<close>

type_synonym jsstring = "16 word list"

text \<open>
  The class \<^verbatim>\<open>\s\<close> of ECMAScript: the WhiteSpace code points (TAB, VT, FF, SP,
  NBSP, ZWNBSP and the Unicode space separators) and the LineTerminator code points
  (LF, CR, LS, PS). All of them are single code units.
\<close>

definition isWhiteSpace :: "16 word \<Rightarrow> bool" where
  "isWhiteSpace c \<longleftrightarrow>
     c = 0x0009 \<or> c = 0x000A \<or> c = 0x000B \<or> c = 0x000C \<or> c = 0x000D \<or>
     c = 0x0020 \<or> c = 0x00A0 \<or> c = 0x1680 \<or>
     (0x2000 \<le> c \<and> c \<le> 0x200A) \<or>
     c = 0x2028 \<or> c = 0x2029 \<or> c = 0x202F \<or> c = 0x205F \<or>
     c = 0x3000 \<or> c = 0xFEFF"

text \<open>
  \<^verbatim>\<open>String.prototype.slice(start, end)\<close>: a negative index counts from the end
  of the string, every index is clamped to the string, and an empty range gives the
  empty string.
\<close>

definition slice_str :: "jsstring \<Rightarrow> int \<Rightarrow> int \<Rightarrow> jsstring" where
  "slice_str s from_ix to_ix =
     (let len = int (length s);
          lo = (if from_ix < 0 then max (len + from_ix) 0 else min from_ix len);
          hi = (if to_ix < 0 then max (len + to_ix) 0 else min to_ix len)
      in take (nat (max (hi - lo) 0)) (drop (nat lo) s))"

text \<open>
  \<^verbatim>\<open>const leadingWhitespaceRe = /^\s+$/;\<close> The expression has no flags, so
  \<^verbatim>\<open>^\<close> is the start of the input and \<^verbatim>\<open>$\<close> its end. The matcher starts at
  index 0, takes one \<^verbatim>\<open>\s\<close>, then as many more as there are (\<open>spaces_to_end\<close>)
  and succeeds when the input ends there. The value is whether
  \<^verbatim>\<open>str.match(leadingWhitespaceRe)\<close> is truthy (an array rather than null).
\<close>

fun spaces_to_end :: "jsstring \<Rightarrow> bool" where
  "spaces_to_end [] = True"
| "spaces_to_end (c # cs) = (isWhiteSpace c \<and> spaces_to_end cs)"

fun leadingWhitespaceRe :: "jsstring \<Rightarrow> bool" where
  "leadingWhitespaceRe [] = False"
| "leadingWhitespaceRe (c # cs) = (isWhiteSpace c \<and> spaces_to_end cs)"

subsection \<open>The editor capability\<close>

text \<open>
  Objects the wrapper only passes around (the DOM node, the model, the configuration,
  the selection style) are references.
\<close>

type_synonym ref = nat

record position =
  line :: int
  column :: int

text \<open>The range \<^verbatim>\<open>{ start, end }\<close> returned by \<^verbatim>\<open>getSelection()\<close>.\<close>

record range =
  start :: position
  end' :: position

text \<open>
  What the hosted editor answers at the moment a handler runs: its model, its primary
  selection, and its lines (\<^verbatim>\<open>getLine\<close> returns \<^verbatim>\<open>undefined\<close>, here \<open>None\<close>,
  for a line that is out of range).
\<close>

record editor =
  model_of :: ref
  getSelection :: range
  getLine :: "int \<Rightarrow> jsstring option"

text \<open>
  The calls the wrapper makes on its collaborators (the factory, the editor, the
  signal of the model, the base class), recorded in the order they are made.
\<close>

record passthrough =
  model :: ref
  uuid :: "jsstring option"
  config :: "ref option"
  selectionStyle :: "ref option"

record editor_options = passthrough +
  host :: ref

datatype call =
    FactoryCall editor_options
  | Connect ref
  | EditorFocus
  | EditorRefresh
  | EditorSetSize int int
  | EditorResizeToFit
  | EditorGetSelection
  | EditorGetLine int
  | EditorDispose
  | SuperDispose
  | SuperOnAfterAttach
  | Update

datatype error = TypeError | Thrown nat

subsection \<open>The base widget\<close>

text \<open>
  The base class \<^verbatim>\<open>Widget\<close> belongs to the container framework and is not part
  of this package; what the wrapper uses of it is modelled from the spec. The fields
  are the ones the wrapper reads or writes: the node, the class list of the node, the
  disposed flag and the visible flag; \<open>calls\<close> is the record of the calls made so far.
\<close>

record Widget =
  node :: ref
  classList :: "string set"
  isDisposed :: bool
  isVisible :: bool
  calls :: "call list"

definition record_call :: "call \<Rightarrow> 'a Widget_scheme \<Rightarrow> 'a Widget_scheme" where
  "record_call c w = w\<lparr>calls := calls w @ [c]\<rparr>"

text \<open>
  Modelled from the spec: the base constructor (container framework) creates the node
  of the widget, carrying the class of the framework and neither style flag; the new
  widget is not disposed and not yet visible.
\<close>

definition Widget_new :: "ref \<Rightarrow> Widget" where
  "Widget_new n =
     \<lparr>node = n, classList = {''p-Widget''}, isDisposed = False, isVisible = False,
      calls = []\<rparr>"

text \<open>
  Modelled from the spec: \<^verbatim>\<open>addClass\<close> of the base class (container framework)
  sets a class marker on the node; the markers form a set.
\<close>

definition addClass :: "string \<Rightarrow> 'a Widget_scheme \<Rightarrow> 'a Widget_scheme" where
  "addClass name w = w\<lparr>classList := insert name (classList w)\<rparr>"

text \<open>
  Modelled from the spec: \<^verbatim>\<open>removeClass\<close> of the base class (container framework)
  clears a class marker on the node.
\<close>

definition removeClass :: "string \<Rightarrow> 'a Widget_scheme \<Rightarrow> 'a Widget_scheme" where
  "removeClass name w = w\<lparr>classList := classList w - {name}\<rparr>"

text \<open>
  Modelled from the spec: \<^verbatim>\<open>dispose\<close> of the base class (container framework)
  marks the widget disposed and releases the resources of the container. What the
  release does to the visibility of the widget is left open: no statement below
  depends on it.
\<close>

definition super_dispose :: "'a Widget_scheme \<Rightarrow> 'a Widget_scheme" where
  "super_dispose w = record_call SuperDispose (w\<lparr>isDisposed := True\<rparr>)"

text \<open>
  Modelled from the spec: \<^verbatim>\<open>onAfterAttach\<close> of the base class (container
  framework) is the base attach behaviour; it is recorded as a call.
\<close>

definition super_onAfterAttach :: "'a Widget_scheme \<Rightarrow> 'a Widget_scheme" where
  "super_onAfterAttach w = record_call SuperOnAfterAttach w"

text \<open>
  Modelled from the spec: \<^verbatim>\<open>update\<close> of the base class (container framework)
  requests a visual update, an update-request message delivered later.
\<close>

definition update :: "'a Widget_scheme \<Rightarrow> 'a Widget_scheme" where
  "update w = record_call Update w"

subsection \<open>The wrapper\<close>

definition HAS_SELECTION_CLASS :: string where
  "HAS_SELECTION_CLASS = ''jp-mod-has-primary-selection''"

definition HAS_IN_LEADING_WHITESPACE_CLASS :: string where
  "HAS_IN_LEADING_WHITESPACE_CLASS = ''jp-mod-in-leading-whitespace''"

record CodeEditorWrapper = Widget +
  editor :: editor

text \<open>
  \<^verbatim>\<open>_onSelectionsChanged\<close>. Calling \<^verbatim>\<open>slice\<close> on \<^verbatim>\<open>undefined\<close> throws a
  TypeError; the classes changed before the throw stay changed, so the error carries
  the state of the widget at the throw.
\<close>

definition onSelectionsChanged ::
  "CodeEditorWrapper \<Rightarrow> (error \<times> CodeEditorWrapper) + CodeEditorWrapper" where
  "onSelectionsChanged w0 =
     (let w = record_call EditorGetSelection w0;
          s = start (getSelection (editor w));
          e = end' (getSelection (editor w))
      in if column s \<noteq> column e \<or> line s \<noteq> line e then
           Inr (removeClass HAS_IN_LEADING_WHITESPACE_CLASS
                 (addClass HAS_SELECTION_CLASS w))
         else
           (let w1 = removeClass HAS_SELECTION_CLASS w;
                w2 = record_call (EditorGetLine (line e)) w1
            in case getLine (editor w2) (line e) of
                 None \<Rightarrow> Inl (TypeError, w2)
               | Some text \<Rightarrow>
                   if leadingWhitespaceRe (slice_str text 0 (column e))
                   then Inr (addClass HAS_IN_LEADING_WHITESPACE_CLASS w2)
                   else Inr (removeClass HAS_IN_LEADING_WHITESPACE_CLASS w2)))"

text \<open>
  The options of the wrapper: the pass-through fields and the factory, which returns
  an editor or throws.
\<close>

record IOptions = passthrough +
  factory :: "editor_options \<Rightarrow> error + editor"

text \<open>
  The constructor. \<open>n\<close> is the node the base constructor creates. When the factory
  throws, no widget is returned: the error carries the calls made up to the throw.
\<close>

definition constructor :: "ref \<Rightarrow> IOptions \<Rightarrow> (error \<times> call list) + CodeEditorWrapper" where
  "constructor n options =
     (let w = Widget_new n;
          args = \<lparr>model = model options, uuid = uuid options, config = config options,
                  selectionStyle = selectionStyle options, host = node w\<rparr>;
          w1 = record_call (FactoryCall args) w
      in case factory options args of
           Inl e \<Rightarrow> Inl (e, calls w1)
         | Inr ed \<Rightarrow>
             Inr (record_call (Connect (model_of ed))
                   (Widget.extend w1 (CodeEditorWrapper.fields ed))))"

definition dispose :: "CodeEditorWrapper \<Rightarrow> CodeEditorWrapper" where
  "dispose w =
     (if isDisposed w then w
      else record_call EditorDispose (super_dispose w))"

definition onActivateRequest :: "CodeEditorWrapper \<Rightarrow> CodeEditorWrapper" where
  "onActivateRequest w = record_call EditorFocus w"

definition onAfterAttach :: "CodeEditorWrapper \<Rightarrow> CodeEditorWrapper" where
  "onAfterAttach w =
     (let w1 = super_onAfterAttach w
      in if isVisible w1 then update w1 else w1)"

definition onAfterShow :: "CodeEditorWrapper \<Rightarrow> CodeEditorWrapper" where
  "onAfterShow w = update w"

definition onResize :: "int \<Rightarrow> int \<Rightarrow> CodeEditorWrapper \<Rightarrow> CodeEditorWrapper" where
  "onResize width height w =
     (if width \<ge> 0 \<and> height \<ge> 0 then record_call (EditorSetSize width height) w
      else if isVisible w then record_call EditorResizeToFit w
      else w)"

definition onUpdateRequest :: "CodeEditorWrapper \<Rightarrow> CodeEditorWrapper" where
  "onUpdateRequest w = record_call EditorRefresh w"

subsection \<open>Runs of the wrapper\<close>

text \<open>
  The lifecycle messages the wrapper overrides a handler for, and their dispatch.
\<close>

datatype message = ActivateRequest | AfterAttach | AfterShow | Resize int int | UpdateRequest

fun processMessage :: "message \<Rightarrow> CodeEditorWrapper \<Rightarrow> CodeEditorWrapper" where
  "processMessage ActivateRequest w = onActivateRequest w"
| "processMessage AfterAttach w = onAfterAttach w"
| "processMessage AfterShow w = onAfterShow w"
| "processMessage (Resize width height) w = onResize width height w"
| "processMessage UpdateRequest w = onUpdateRequest w"

text \<open>
  The states a wrapper goes through: it is constructed, then lifecycle messages,
  selection changes and disposals arrive in any order. A selection change that throws
  leaves the widget in the state of the throw. Between two handlers the editor (its
  selection and text) and the visibility of the widget change freely; nothing but the
  handlers touches the node, its classes, the disposed flag or the record of calls.
\<close>

inductive reachable :: "CodeEditorWrapper \<Rightarrow> bool" where
  constructed: "constructor n options = Inr w \<Longrightarrow> reachable w"
| message: "reachable w \<Longrightarrow> reachable (processMessage m w)"
| selection_changed: "reachable w \<Longrightarrow> onSelectionsChanged w = Inr w' \<Longrightarrow> reachable w'"
| selection_threw: "reachable w \<Longrightarrow> onSelectionsChanged w = Inl (e, w') \<Longrightarrow> reachable w'"
| disposed: "reachable w \<Longrightarrow> reachable (dispose w)"
| environment: "reachable w \<Longrightarrow> reachable (w\<lparr>editor := ed, isVisible := v\<rparr>)"

subsection \<open>Example states\<close>

text \<open>The line \<^verbatim>\<open>"    x = 1"\<close>: four spaces, then \<^verbatim>\<open>x = 1\<close>.\<close>

definition example_line :: jsstring where
  "example_line = [0x20, 0x20, 0x20, 0x20, 0x78, 0x20, 0x3D, 0x20, 0x31]"

text \<open>An editor with that single line (line 0) and a selection from \<open>s\<close> to \<open>e\<close>.\<close>

definition example_editor :: "position \<Rightarrow> position \<Rightarrow> editor" where
  "example_editor s e =
     \<lparr>model_of = 2, getSelection = \<lparr>start = s, end' = e\<rparr>,
      getLine = (\<lambda>n. if n = 0 then Some example_line else None)\<rparr>"

definition example_wrapper :: "editor \<Rightarrow> CodeEditorWrapper" where
  "example_wrapper ed =
     \<lparr>node = 1, classList = {''p-Widget''}, isDisposed = False, isVisible = False,
      calls = [], editor = ed\<rparr>"

definition example_options :: "error + editor \<Rightarrow> IOptions" where
  "example_options r =
     \<lparr>model = 2, uuid = None, config = Some 3, selectionStyle = None,
      factory = (\<lambda>_. r)\<rparr>"

section \<open>Properties\<close>

subsection \<open>Auxiliary facts\<close>

lemma flags_distinct: "HAS_SELECTION_CLASS \<noteq> HAS_IN_LEADING_WHITESPACE_CLASS"
  by (simp add: HAS_SELECTION_CLASS_def HAS_IN_LEADING_WHITESPACE_CLASS_def)

lemma spaces_to_end_iff: "spaces_to_end s \<longleftrightarrow> (\<forall>c\<in>set s. isWhiteSpace c)"
  by (induction s) auto

lemma leadingWhitespaceRe_iff:
  "leadingWhitespaceRe s \<longleftrightarrow> s \<noteq> [] \<and> (\<forall>c\<in>set s. isWhiteSpace c)"
  by (cases s) (auto simp: spaces_to_end_iff)

lemma slice_str_prefix: "0 \<le> k \<Longrightarrow> slice_str s 0 k = take (nat k) s"
  by (simp add: slice_str_def Let_def min_def)

lemma slice_str_zero: "slice_str s 0 0 = []"
  by (simp add: slice_str_def)

lemma classList_record_call [simp]: "classList (record_call c w) = classList w"
  by (simp add: record_call_def)

lemma classList_addClass [simp]: "classList (addClass n w) = insert n (classList w)"
  by (simp add: addClass_def)

lemma classList_removeClass [simp]: "classList (removeClass n w) = classList w - {n}"
  by (simp add: removeClass_def)

lemma editor_record_call [simp]: "editor (record_call c w) = editor w"
  by (simp add: record_call_def)

lemma editor_addClass [simp]: "editor (addClass n w) = editor w"
  by (simp add: addClass_def)

lemma editor_removeClass [simp]: "editor (removeClass n w) = editor w"
  by (simp add: removeClass_def)

lemma calls_record_call [simp]: "calls (record_call c w) = calls w @ [c]"
  by (simp add: record_call_def)

lemma calls_addClass [simp]: "calls (addClass n w) = calls w"
  by (simp add: addClass_def)

lemma calls_removeClass [simp]: "calls (removeClass n w) = calls w"
  by (simp add: removeClass_def)

lemma isVisible_record_call [simp]: "isVisible (record_call c w) = isVisible w"
  by (simp add: record_call_def)

lemma isDisposed_record_call [simp]: "isDisposed (record_call c w) = isDisposed w"
  by (simp add: record_call_def)

lemma calls_update [simp]: "calls (update w) = calls w @ [Update]"
  by (simp add: update_def)

lemma calls_super_onAfterAttach [simp]:
  "calls (super_onAfterAttach w) = calls w @ [SuperOnAfterAttach]"
  by (simp add: super_onAfterAttach_def)

lemmas handler_defs =
  onActivateRequest_def onAfterAttach_def onAfterShow_def onResize_def onUpdateRequest_def
  update_def super_onAfterAttach_def Let_def

lemmas example_defs =
  example_wrapper_def example_editor_def example_line_def example_options_def

lemma isWhiteSpace_space: "isWhiteSpace 0x20"
  by (simp add: isWhiteSpace_def)

lemma not_isWhiteSpace_x: "\<not> isWhiteSpace 0x78"
  by (simp add: isWhiteSpace_def)

lemma classList_processMessage: "classList (processMessage m w) = classList w"
  by (cases m) (simp_all add: handler_defs)

lemma classList_dispose: "classList (dispose w) = classList w"
  by (simp add: dispose_def super_dispose_def)

lemma classList_constructor:
  "constructor n options = Inr w \<Longrightarrow> classList w = {''p-Widget''}"
  by (auto simp: constructor_def Let_def Widget_new_def Widget.defs
      CodeEditorWrapper.defs record_call_def split: sum.splits)

lemma onSelectionsChanged_returns:
  "onSelectionsChanged w = Inr w' \<Longrightarrow>
     \<not> (HAS_SELECTION_CLASS \<in> classList w' \<and>
        HAS_IN_LEADING_WHITESPACE_CLASS \<in> classList w')"
  using flags_distinct
  by (auto simp: onSelectionsChanged_def Let_def split: if_splits option.splits)

lemma onSelectionsChanged_throws:
  "onSelectionsChanged w = Inl (e, w') \<Longrightarrow>
     HAS_SELECTION_CLASS \<notin> classList w' \<and>
     (HAS_IN_LEADING_WHITESPACE_CLASS \<in> classList w' \<longleftrightarrow>
      HAS_IN_LEADING_WHITESPACE_CLASS \<in> classList w)"
  using flags_distinct
  by (auto simp: onSelectionsChanged_def Let_def split: if_splits option.splits)

lemma reachable_flags:
  "reachable w \<Longrightarrow>
     \<not> (HAS_SELECTION_CLASS \<in> classList w \<and>
        HAS_IN_LEADING_WHITESPACE_CLASS \<in> classList w)"
proof (induction rule: reachable.induct)
  case (constructed n options w)
  then show ?case
    by (simp add: classList_constructor HAS_SELECTION_CLASS_def)
next
  case (message w m)
  then show ?case by (simp add: classList_processMessage)
next
  case (selection_changed w w')
  then show ?case by (simp add: onSelectionsChanged_returns)
next
  case (selection_threw w e w')
  then show ?case by (simp add: onSelectionsChanged_throws)
next
  case (disposed w)
  then show ?case by (simp add: classList_dispose)
next
  case (environment w ed v)
  then show ?case by simp
qed

subsection \<open>The selection classifier\<close>

text \<open>
  Claim C1. Whenever the selection returned by \<^verbatim>\<open>getSelection()\<close> has a start and
  an end that differ in column or in line, the selection-changed handler returns
  normally, and afterwards the class \<open>HAS_SELECTION_CLASS\<close> is on the node and the
  class \<open>HAS_IN_LEADING_WHITESPACE_CLASS\<close> is not. This holds from every state of the
  widget and whatever the lines of the editor are.
\<close>

theorem range_selection_sets_has_selection:
  assumes "getSelection (editor w) = sel"
    and "column (start sel) \<noteq> column (end' sel) \<or> line (start sel) \<noteq> line (end' sel)"
  shows "\<exists>w'. onSelectionsChanged w = Inr w' \<and>
           HAS_SELECTION_CLASS \<in> classList w' \<and>
           HAS_IN_LEADING_WHITESPACE_CLASS \<notin> classList w'"
  using assms flags_distinct by (auto simp: onSelectionsChanged_def Let_def)

text \<open>
  A selection from column 0 to column 4 of line 0, on a widget that carried the
  leading-whitespace flag before.
\<close>

theorem range_selection_sets_has_selection_witness:
  "\<exists>w'. onSelectionsChanged
           (addClass HAS_IN_LEADING_WHITESPACE_CLASS
             (example_wrapper (example_editor \<lparr>line = 0, column = 0\<rparr> \<lparr>line = 0, column = 4\<rparr>)))
         = Inr w' \<and>
         HAS_SELECTION_CLASS \<in> classList w' \<and>
         HAS_IN_LEADING_WHITESPACE_CLASS \<notin> classList w'"
  by (rule range_selection_sets_has_selection
        [where sel = "\<lparr>start = \<lparr>line = 0, column = 0\<rparr>, end' = \<lparr>line = 0, column = 4\<rparr>\<rparr>"])
     (simp_all add: example_defs)

text \<open>
  Claim C2. Let the selection be a caret (start and end agree in line and in column) on
  a line of the editor, and let the prefix be the text of that line sliced from 0 to
  the column of the caret. If the prefix is not empty and every code unit of it is
  white space, the handler returns normally with \<open>HAS_IN_LEADING_WHITESPACE_CLASS\<close> on
  the node and \<open>HAS_SELECTION_CLASS\<close> off it. If the prefix holds a code unit that is
  not white space, the handler returns normally with
  \<open>HAS_IN_LEADING_WHITESPACE_CLASS\<close> off the node (and \<open>HAS_SELECTION_CLASS\<close> off it
  too).
\<close>

theorem caret_in_leading_whitespace:
  assumes "getSelection (editor w) = sel"
    and "column (start sel) = column (end' sel)" and "line (start sel) = line (end' sel)"
    and "getLine (editor w) (line (end' sel)) = Some text"
    and "prefix = slice_str text 0 (column (end' sel))"
  shows "(prefix \<noteq> [] \<and> (\<forall>c\<in>set prefix. isWhiteSpace c) \<longrightarrow>
            (\<exists>w'. onSelectionsChanged w = Inr w' \<and>
               HAS_IN_LEADING_WHITESPACE_CLASS \<in> classList w' \<and>
               HAS_SELECTION_CLASS \<notin> classList w')) \<and>
         ((\<exists>c\<in>set prefix. \<not> isWhiteSpace c) \<longrightarrow>
            (\<exists>w'. onSelectionsChanged w = Inr w' \<and>
               HAS_IN_LEADING_WHITESPACE_CLASS \<notin> classList w' \<and>
               HAS_SELECTION_CLASS \<notin> classList w'))"
  using assms flags_distinct
  by (auto simp: onSelectionsChanged_def Let_def leadingWhitespaceRe_iff)

text \<open>
  The scenario of the specification: on the line \<^verbatim>\<open>"    x = 1"\<close> a caret at column
  4 has the prefix of four spaces and gets the flag; a caret at column 5 has a prefix
  that ends in \<^verbatim>\<open>x\<close> and loses it.
\<close>

theorem caret_in_leading_whitespace_witness:
  "(\<exists>w'. onSelectionsChanged
            (addClass HAS_SELECTION_CLASS
              (example_wrapper (example_editor \<lparr>line = 0, column = 4\<rparr> \<lparr>line = 0, column = 4\<rparr>)))
          = Inr w' \<and>
          HAS_IN_LEADING_WHITESPACE_CLASS \<in> classList w' \<and>
          HAS_SELECTION_CLASS \<notin> classList w') \<and>
   (\<exists>w'. onSelectionsChanged
            (addClass HAS_IN_LEADING_WHITESPACE_CLASS
              (example_wrapper (example_editor \<lparr>line = 0, column = 5\<rparr> \<lparr>line = 0, column = 5\<rparr>)))
          = Inr w' \<and>
          HAS_IN_LEADING_WHITESPACE_CLASS \<notin> classList w' \<and>
          HAS_SELECTION_CLASS \<notin> classList w')"
proof -
  let ?w4 = "addClass HAS_SELECTION_CLASS
    (example_wrapper (example_editor \<lparr>line = 0, column = 4\<rparr> \<lparr>line = 0, column = 4\<rparr>))"
  let ?w5 = "addClass HAS_IN_LEADING_WHITESPACE_CLASS
    (example_wrapper (example_editor \<lparr>line = 0, column = 5\<rparr> \<lparr>line = 0, column = 5\<rparr>))"
  have p4: "slice_str example_line 0 4 = [0x20, 0x20, 0x20, 0x20]"
    by (simp add: slice_str_def example_line_def)
  have p5: "slice_str example_line 0 5 = [0x20, 0x20, 0x20, 0x20, 0x78]"
    by (simp add: slice_str_def example_line_def)
  have a: "\<exists>w'. onSelectionsChanged ?w4 = Inr w' \<and>
             HAS_IN_LEADING_WHITESPACE_CLASS \<in> classList w' \<and>
             HAS_SELECTION_CLASS \<notin> classList w'"
    using caret_in_leading_whitespace
      [of ?w4 "\<lparr>start = \<lparr>line = 0, column = 4\<rparr>, end' = \<lparr>line = 0, column = 4\<rparr>\<rparr>"
          example_line "[0x20, 0x20, 0x20, 0x20]"]
      p4 isWhiteSpace_space
    by (simp add: example_wrapper_def example_editor_def)
  have b: "\<exists>w'. onSelectionsChanged ?w5 = Inr w' \<and>
             HAS_IN_LEADING_WHITESPACE_CLASS \<notin> classList w' \<and>
             HAS_SELECTION_CLASS \<notin> classList w'"
    using caret_in_leading_whitespace
      [of ?w5 "\<lparr>start = \<lparr>line = 0, column = 5\<rparr>, end' = \<lparr>line = 0, column = 5\<rparr>\<rparr>"
          example_line "[0x20, 0x20, 0x20, 0x20, 0x78]"]
      p5 not_isWhiteSpace_x
    by (simp add: example_wrapper_def example_editor_def)
  from a b show ?thesis by blast
qed

text \<open>
  Claim C3. For a caret at column 0 of a line of the editor, the prefix is the empty
  string, which the leading-whitespace expression does not match (it needs at least
  one white-space code unit); the handler returns normally and afterwards neither
  \<open>HAS_IN_LEADING_WHITESPACE_CLASS\<close> nor \<open>HAS_SELECTION_CLASS\<close> is on the node.
\<close>

theorem caret_at_column_zero:
  assumes "getSelection (editor w) = sel"
    and "column (start sel) = column (end' sel)" and "line (start sel) = line (end' sel)"
    and "column (end' sel) = 0"
    and "getLine (editor w) (line (end' sel)) = Some text"
  shows "slice_str text 0 (column (end' sel)) = [] \<and>
         \<not> leadingWhitespaceRe [] \<and>
         (\<exists>w'. onSelectionsChanged w = Inr w' \<and>
            HAS_IN_LEADING_WHITESPACE_CLASS \<notin> classList w' \<and>
            HAS_SELECTION_CLASS \<notin> classList w')"
  using assms
  by (auto simp: onSelectionsChanged_def Let_def slice_str_zero)

text \<open>
  A caret at the start of the line \<^verbatim>\<open>"    x = 1"\<close>, on a widget that carried both
  flags before.
\<close>

theorem caret_at_column_zero_witness:
  "\<exists>w'. onSelectionsChanged
           (addClass HAS_SELECTION_CLASS (addClass HAS_IN_LEADING_WHITESPACE_CLASS
             (example_wrapper (example_editor \<lparr>line = 0, column = 0\<rparr> \<lparr>line = 0, column = 0\<rparr>))))
         = Inr w' \<and>
         HAS_IN_LEADING_WHITESPACE_CLASS \<notin> classList w' \<and>
         HAS_SELECTION_CLASS \<notin> classList w'"
  using caret_at_column_zero
    [of "addClass HAS_SELECTION_CLASS (addClass HAS_IN_LEADING_WHITESPACE_CLASS
          (example_wrapper (example_editor \<lparr>line = 0, column = 0\<rparr> \<lparr>line = 0, column = 0\<rparr>)))"
        "\<lparr>start = \<lparr>line = 0, column = 0\<rparr>, end' = \<lparr>line = 0, column = 0\<rparr>\<rparr>"
        example_line]
  by (simp add: example_wrapper_def example_editor_def)

subsection \<open>Lifecycle messages\<close>

text \<open>
  Claim C4. On a resize message the handler makes exactly the calls \<open>new\<close>, where:
  \<open>new\<close> is the single call \<^verbatim>\<open>editor.setSize\<close> with the given dimensions if and only
  if both the width and the height are at least 0, whether or not the widget is
  visible; when one of them is negative, \<open>new\<close> is the single call
  \<^verbatim>\<open>editor.resizeToFit()\<close> if and only if the widget is visible; and when one of them
  is negative and the widget is not visible, no call is made and the widget is left
  as it was.
\<close>

theorem resize_guards:
  "\<exists>new. calls (onResize width height w) = calls w @ new \<and>
     (new = [EditorSetSize width height] \<longleftrightarrow> 0 \<le> width \<and> 0 \<le> height) \<and>
     (\<not> (0 \<le> width \<and> 0 \<le> height) \<longrightarrow> (new = [EditorResizeToFit] \<longleftrightarrow> isVisible w)) \<and>
     (\<not> (0 \<le> width \<and> 0 \<le> height) \<and> \<not> isVisible w \<longrightarrow>
        new = [] \<and> onResize width height w = w)"
  by (simp add: onResize_def)

text \<open>
  The scenarios of the specification: 80 by 24 while hidden calls \<^verbatim>\<open>setSize\<close>; -1 by
  -1 while hidden does nothing; -1 by -1 while visible calls \<^verbatim>\<open>resizeToFit\<close>.
\<close>

theorem resize_guards_witness:
  "calls (onResize 80 24
      (example_wrapper (example_editor \<lparr>line = 0, column = 0\<rparr> \<lparr>line = 0, column = 0\<rparr>)))
     = [EditorSetSize 80 24] \<and>
   onResize (- 1) (- 1)
      (example_wrapper (example_editor \<lparr>line = 0, column = 0\<rparr> \<lparr>line = 0, column = 0\<rparr>))
     = example_wrapper (example_editor \<lparr>line = 0, column = 0\<rparr> \<lparr>line = 0, column = 0\<rparr>) \<and>
   calls (onResize (- 1) (- 1)
      ((example_wrapper (example_editor \<lparr>line = 0, column = 0\<rparr> \<lparr>line = 0, column = 0\<rparr>))
         \<lparr>isVisible := True\<rparr>))
     = [EditorResizeToFit]"
  using
    resize_guards [of 80 24
      "example_wrapper (example_editor \<lparr>line = 0, column = 0\<rparr> \<lparr>line = 0, column = 0\<rparr>)"]
    resize_guards [of "- 1" "- 1"
      "example_wrapper (example_editor \<lparr>line = 0, column = 0\<rparr> \<lparr>line = 0, column = 0\<rparr>)"]
    resize_guards [of "- 1" "- 1"
      "(example_wrapper (example_editor \<lparr>line = 0, column = 0\<rparr> \<lparr>line = 0, column = 0\<rparr>))
         \<lparr>isVisible := True\<rparr>"]
  by (auto simp: example_wrapper_def)

text \<open>
  Claim C8, as amended. The claim puts both the base attach behaviour and the request
  of a visual update under the guard "only if currently visible". In the source the
  call of the base \<^verbatim>\<open>onAfterAttach\<close> stands before the test of
  \<^verbatim>\<open>isVisible\<close>, so only the request is guarded. What holds: on an after-attach
  message the handler first runs the base attach behaviour, whether or not the widget
  is visible, and then requests a visual update exactly when the widget is visible; on
  an after-show message it requests a visual update from every state; on an
  update-request it calls \<^verbatim>\<open>editor.refresh()\<close> from every state. No other call
  is made.
\<close>

theorem attach_show_update:
  "(\<exists>new. calls (onAfterAttach w) = calls w @ SuperOnAfterAttach # new \<and>
      (new = [Update] \<longleftrightarrow> isVisible w) \<and> (new = [] \<longleftrightarrow> \<not> isVisible w)) \<and>
   calls (onAfterShow w) = calls w @ [Update] \<and>
   calls (onUpdateRequest w) = calls w @ [EditorRefresh]"
  by (simp add: handler_defs)

theorem attach_show_update_witness:
  "calls (onAfterAttach
      (example_wrapper (example_editor \<lparr>line = 0, column = 0\<rparr> \<lparr>line = 0, column = 0\<rparr>)))
     = [SuperOnAfterAttach] \<and>
   calls (onAfterAttach
      ((example_wrapper (example_editor \<lparr>line = 0, column = 0\<rparr> \<lparr>line = 0, column = 0\<rparr>))
         \<lparr>isVisible := True\<rparr>))
     = [SuperOnAfterAttach, Update] \<and>
   calls (onAfterShow
      (example_wrapper (example_editor \<lparr>line = 0, column = 0\<rparr> \<lparr>line = 0, column = 0\<rparr>)))
     = [Update] \<and>
   calls (onUpdateRequest
      (example_wrapper (example_editor \<lparr>line = 0, column = 0\<rparr> \<lparr>line = 0, column = 0\<rparr>)))
     = [EditorRefresh]"
  using
    attach_show_update [of
      "example_wrapper (example_editor \<lparr>line = 0, column = 0\<rparr> \<lparr>line = 0, column = 0\<rparr>)"]
    attach_show_update [of
      "(example_wrapper (example_editor \<lparr>line = 0, column = 0\<rparr> \<lparr>line = 0, column = 0\<rparr>))
         \<lparr>isVisible := True\<rparr>"]
  by (auto simp: example_wrapper_def)

text \<open>
  Claim C8 as stated fails on a hidden widget: the example widget is not visible, and
  an after-attach message still runs the base attach behaviour on it. So "the base
  attach behaviour runs only if the widget is visible" is false there.
\<close>

theorem attach_base_guard_counterexample:
  "\<not> (SuperOnAfterAttach \<in> set (calls (onAfterAttach
          (example_wrapper (example_editor \<lparr>line = 0, column = 0\<rparr> \<lparr>line = 0, column = 0\<rparr>))))
        \<longrightarrow>
        isVisible
          (example_wrapper (example_editor \<lparr>line = 0, column = 0\<rparr> \<lparr>line = 0, column = 0\<rparr>)))"
  by (simp add: onAfterAttach_def super_onAfterAttach_def record_call_def Let_def
      example_wrapper_def)

subsection \<open>Disposal and construction\<close>

text \<open>
  Claim C6. Disposal is idempotent. On a widget that is not disposed, \<^verbatim>\<open>dispose\<close>
  runs the base disposal, which marks the widget disposed and releases the resources
  of the container, and then disposes the editor, in that order. On a disposed widget
  it does nothing: the widget, and with it the record of calls, is unchanged. So two
  calls in succession dispose the editor exactly once, and the second call makes no
  call that could throw.
\<close>

theorem dispose_idempotent:
  "dispose (dispose w) = dispose w \<and>
   (isDisposed w \<longrightarrow> dispose w = w) \<and>
   (\<not> isDisposed w \<longrightarrow>
      isDisposed (dispose w) \<and>
      calls (dispose w) = calls w @ [SuperDispose, EditorDispose] \<and>
      calls (dispose (dispose w)) = calls w @ [SuperDispose, EditorDispose] \<and>
      count_list (calls (dispose (dispose w))) EditorDispose =
        count_list (calls w) EditorDispose + 1)"
  by (simp add: dispose_def super_dispose_def)

theorem dispose_idempotent_witness:
  "isDisposed (dispose
      (example_wrapper (example_editor \<lparr>line = 0, column = 0\<rparr> \<lparr>line = 0, column = 0\<rparr>))) \<and>
   calls (dispose (dispose
      (example_wrapper (example_editor \<lparr>line = 0, column = 0\<rparr> \<lparr>line = 0, column = 0\<rparr>))))
     = [SuperDispose, EditorDispose] \<and>
   count_list (calls (dispose (dispose
      (example_wrapper (example_editor \<lparr>line = 0, column = 0\<rparr> \<lparr>line = 0, column = 0\<rparr>)))))
      EditorDispose = 1"
  using dispose_idempotent [of
      "example_wrapper (example_editor \<lparr>line = 0, column = 0\<rparr> \<lparr>line = 0, column = 0\<rparr>)"]
  by (simp add: example_wrapper_def)

text \<open>
  Claim C7. The constructor calls the factory exactly once, with the node of the new
  widget as host and the model, uuid, config and selection style of its options
  unchanged. When the factory returns an editor, the constructor stores it and then
  connects the selection-changed handler to the signal of the model of that editor;
  these are its only calls. When the factory throws, the error reaches the caller, no
  widget is returned, and the call of the factory is the only call made: nothing is
  connected.
\<close>

theorem constructor_calls_factory_once:
  assumes "args = \<lparr>model = model options, uuid = uuid options, config = config options,
             selectionStyle = selectionStyle options, host = n\<rparr>"
  shows "(\<forall>ed. factory options args = Inr ed \<longrightarrow>
            (\<exists>w. constructor n options = Inr w \<and> node w = n \<and> editor w = ed \<and>
               calls w = [FactoryCall args, Connect (model_of ed)])) \<and>
         (\<forall>e. factory options args = Inl e \<longrightarrow>
            constructor n options = Inl (e, [FactoryCall args]))"
  using assms
  by (simp add: constructor_def Let_def Widget_new_def record_call_def Widget.defs
      CodeEditorWrapper.defs)

theorem constructor_calls_factory_once_witness:
  "(\<exists>w. constructor 1
           (example_options (Inr (example_editor \<lparr>line = 0, column = 0\<rparr> \<lparr>line = 0, column = 0\<rparr>)))
         = Inr w \<and>
         node w = 1 \<and>
         editor w = example_editor \<lparr>line = 0, column = 0\<rparr> \<lparr>line = 0, column = 0\<rparr> \<and>
         calls w =
           [FactoryCall \<lparr>model = 2, uuid = None, config = Some 3, selectionStyle = None, host = 1\<rparr>,
            Connect 2]) \<and>
   constructor 1 (example_options (Inl (Thrown 0)))
     = Inl (Thrown 0,
         [FactoryCall \<lparr>model = 2, uuid = None, config = Some 3, selectionStyle = None, host = 1\<rparr>])"
  using
    constructor_calls_factory_once [of
      "\<lparr>model = 2, uuid = None, config = Some 3, selectionStyle = None, host = 1\<rparr>"
      "example_options (Inr (example_editor \<lparr>line = 0, column = 0\<rparr> \<lparr>line = 0, column = 0\<rparr>))" 1]
    constructor_calls_factory_once [of
      "\<lparr>model = 2, uuid = None, config = Some 3, selectionStyle = None, host = 1\<rparr>"
      "example_options (Inl (Thrown 0))" 1]
  by (simp add: example_options_def example_editor_def)

subsection \<open>Safety of the selection classifier\<close>

text \<open>
  Claim C9. The selection-changed handler returns normally for a caret only when
  \<^verbatim>\<open>getLine\<close> returns a string for the line of the caret. For a caret on a line for
  which \<^verbatim>\<open>getLine\<close> returns no string, the handler throws a TypeError, after it has
  called \<^verbatim>\<open>getSelection\<close> and \<^verbatim>\<open>getLine\<close>; for a caret on a line that
  \<^verbatim>\<open>getLine\<close> returns, it returns normally. For a range selection the handler
  returns normally whatever \<^verbatim>\<open>getLine\<close> would answer, and its only call is
  \<^verbatim>\<open>getSelection\<close>: \<^verbatim>\<open>getLine\<close> is not called.
\<close>

theorem selection_handler_needs_line:
  assumes "getSelection (editor w) = sel"
    and "caret \<longleftrightarrow> column (start sel) = column (end' sel) \<and> line (start sel) = line (end' sel)"
  shows "(caret \<and> getLine (editor w) (line (end' sel)) = None \<longrightarrow>
            (\<exists>w'. onSelectionsChanged w = Inl (TypeError, w') \<and>
               calls w' = calls w @ [EditorGetSelection, EditorGetLine (line (end' sel))])) \<and>
         (caret \<and> getLine (editor w) (line (end' sel)) \<noteq> None \<longrightarrow>
            (\<exists>w'. onSelectionsChanged w = Inr w' \<and>
               calls w' = calls w @ [EditorGetSelection, EditorGetLine (line (end' sel))])) \<and>
         (\<not> caret \<longrightarrow>
            (\<exists>w'. onSelectionsChanged w = Inr w' \<and>
               calls w' = calls w @ [EditorGetSelection]))"
  using assms by (auto simp: onSelectionsChanged_def Let_def)

text \<open>
  The example editor has line 0 only. A caret on line 7 makes the handler throw; a
  selection that ends on line 7 does not.
\<close>

theorem selection_handler_needs_line_witness:
  "(\<exists>w'. onSelectionsChanged
            (example_wrapper (example_editor \<lparr>line = 7, column = 0\<rparr> \<lparr>line = 7, column = 0\<rparr>))
          = Inl (TypeError, w') \<and>
          calls w' = [EditorGetSelection, EditorGetLine 7]) \<and>
   (\<exists>w'. onSelectionsChanged
            (example_wrapper (example_editor \<lparr>line = 0, column = 2\<rparr> \<lparr>line = 0, column = 2\<rparr>))
          = Inr w' \<and>
          calls w' = [EditorGetSelection, EditorGetLine 0]) \<and>
   (\<exists>w'. onSelectionsChanged
            (example_wrapper (example_editor \<lparr>line = 0, column = 0\<rparr> \<lparr>line = 7, column = 0\<rparr>))
          = Inr w' \<and>
          calls w' = [EditorGetSelection])"
  using
    selection_handler_needs_line [of
      "example_wrapper (example_editor \<lparr>line = 7, column = 0\<rparr> \<lparr>line = 7, column = 0\<rparr>)"
      "\<lparr>start = \<lparr>line = 7, column = 0\<rparr>, end' = \<lparr>line = 7, column = 0\<rparr>\<rparr>" True]
    selection_handler_needs_line [of
      "example_wrapper (example_editor \<lparr>line = 0, column = 2\<rparr> \<lparr>line = 0, column = 2\<rparr>)"
      "\<lparr>start = \<lparr>line = 0, column = 2\<rparr>, end' = \<lparr>line = 0, column = 2\<rparr>\<rparr>" True]
    selection_handler_needs_line [of
      "example_wrapper (example_editor \<lparr>line = 0, column = 0\<rparr> \<lparr>line = 7, column = 0\<rparr>)"
      "\<lparr>start = \<lparr>line = 0, column = 0\<rparr>, end' = \<lparr>line = 7, column = 0\<rparr>\<rparr>" False]
  by (simp add: example_wrapper_def example_editor_def)

subsection \<open>Handlers on a disposed widget\<close>

text \<open>
  Claim C10. No lifecycle handler reads the disposed flag: handling a message on a
  widget whose flag is set to any value gives the state that handling it on the
  widget itself gives, with the flag set to that value. In particular, on a disposed
  widget an activate-request still calls \<^verbatim>\<open>editor.focus()\<close>, an update-request still
  calls \<^verbatim>\<open>editor.refresh()\<close>, a resize with dimensions that are not negative still
  calls \<^verbatim>\<open>editor.setSize\<close>, and a resize with a negative dimension on a visible
  widget still calls \<^verbatim>\<open>editor.resizeToFit()\<close>.
\<close>

theorem handlers_ignore_disposed_flag:
  "processMessage m (w\<lparr>isDisposed := b\<rparr>) = (processMessage m w)\<lparr>isDisposed := b\<rparr> \<and>
   (isDisposed w \<longrightarrow>
      calls (onActivateRequest w) = calls w @ [EditorFocus] \<and>
      calls (onUpdateRequest w) = calls w @ [EditorRefresh] \<and>
      (0 \<le> width \<and> 0 \<le> height \<longrightarrow>
         calls (onResize width height w) = calls w @ [EditorSetSize width height]) \<and>
      (\<not> (0 \<le> width \<and> 0 \<le> height) \<and> isVisible w \<longrightarrow>
         calls (onResize width height w) = calls w @ [EditorResizeToFit]))"
  by (cases m) (simp_all add: handler_defs record_call_def)

text \<open>The example widget after its disposal, hidden and made visible.\<close>

theorem handlers_ignore_disposed_flag_witness:
  "isDisposed (dispose
      (example_wrapper (example_editor \<lparr>line = 0, column = 0\<rparr> \<lparr>line = 0, column = 0\<rparr>))) \<and>
   calls (onActivateRequest (dispose
      (example_wrapper (example_editor \<lparr>line = 0, column = 0\<rparr> \<lparr>line = 0, column = 0\<rparr>))))
     = [SuperDispose, EditorDispose, EditorFocus] \<and>
   calls (onUpdateRequest (dispose
      (example_wrapper (example_editor \<lparr>line = 0, column = 0\<rparr> \<lparr>line = 0, column = 0\<rparr>))))
     = [SuperDispose, EditorDispose, EditorRefresh] \<and>
   calls (onResize 80 24 (dispose
      (example_wrapper (example_editor \<lparr>line = 0, column = 0\<rparr> \<lparr>line = 0, column = 0\<rparr>))))
     = [SuperDispose, EditorDispose, EditorSetSize 80 24] \<and>
   calls (onResize (- 1) (- 1) ((dispose
      (example_wrapper (example_editor \<lparr>line = 0, column = 0\<rparr> \<lparr>line = 0, column = 0\<rparr>)))
        \<lparr>isVisible := True\<rparr>))
     = [SuperDispose, EditorDispose, EditorResizeToFit]"
proof -
  let ?w = "example_wrapper (example_editor \<lparr>line = 0, column = 0\<rparr> \<lparr>line = 0, column = 0\<rparr>)"
  have d: "isDisposed (dispose ?w)" "calls (dispose ?w) = [SuperDispose, EditorDispose]"
    "isDisposed ((dispose ?w)\<lparr>isVisible := True\<rparr>)"
    "isVisible ((dispose ?w)\<lparr>isVisible := True\<rparr>)"
    "calls ((dispose ?w)\<lparr>isVisible := True\<rparr>) = [SuperDispose, EditorDispose]"
    by (simp_all add: dispose_def super_dispose_def example_wrapper_def)
  show ?thesis
    using
      handlers_ignore_disposed_flag [where m = ActivateRequest and w = "dispose ?w"
        and b = True and width = 80 and height = 24]
      handlers_ignore_disposed_flag [where m = ActivateRequest
        and w = "(dispose ?w)\<lparr>isVisible := True\<rparr>"
        and b = True and width = "- 1" and height = "- 1"]
      d
    by simp
qed

subsection \<open>The two style flags exclude each other\<close>

text \<open>
  Claim C5. In every state a wrapper reaches (after its construction and after any
  sequence of lifecycle messages, selection changes, disposals and changes of the
  editor and of the visibility), at most one of \<open>HAS_SELECTION_CLASS\<close> and
  \<open>HAS_IN_LEADING_WHITESPACE_CLASS\<close> is on the node. The selection-changed handler
  leaves at most one of them on the node from any state when it returns; when it
  throws it has removed \<open>HAS_SELECTION_CLASS\<close> and has neither added nor removed
  \<open>HAS_IN_LEADING_WHITESPACE_CLASS\<close>. The lifecycle handlers and \<^verbatim>\<open>dispose\<close> leave
  the classes of the node as they are, and a new wrapper carries neither flag.
\<close>

theorem flags_exclusive:
  "(reachable w \<longrightarrow>
      \<not> (HAS_SELECTION_CLASS \<in> classList w \<and>
         HAS_IN_LEADING_WHITESPACE_CLASS \<in> classList w)) \<and>
   (\<forall>w'. onSelectionsChanged w = Inr w' \<longrightarrow>
      \<not> (HAS_SELECTION_CLASS \<in> classList w' \<and>
         HAS_IN_LEADING_WHITESPACE_CLASS \<in> classList w')) \<and>
   (\<forall>e w'. onSelectionsChanged w = Inl (e, w') \<longrightarrow>
      HAS_SELECTION_CLASS \<notin> classList w' \<and>
      (HAS_IN_LEADING_WHITESPACE_CLASS \<in> classList w' \<longleftrightarrow>
       HAS_IN_LEADING_WHITESPACE_CLASS \<in> classList w)) \<and>
   classList (processMessage m w) = classList w \<and>
   classList (dispose w) = classList w \<and>
   (\<forall>n options. constructor n options = Inr w \<longrightarrow>
      HAS_SELECTION_CLASS \<notin> classList w \<and>
      HAS_IN_LEADING_WHITESPACE_CLASS \<notin> classList w)"
proof -
  have "\<forall>n options. constructor n options = Inr w \<longrightarrow>
      HAS_SELECTION_CLASS \<notin> classList w \<and>
      HAS_IN_LEADING_WHITESPACE_CLASS \<notin> classList w"
    by (auto simp: classList_constructor HAS_SELECTION_CLASS_def
        HAS_IN_LEADING_WHITESPACE_CLASS_def)
  then show ?thesis
    using reachable_flags [of w] onSelectionsChanged_returns [of w]
      onSelectionsChanged_throws [of w]
      classList_processMessage [of m w] classList_dispose [of w]
    by blast
qed

text \<open>
  A run: the wrapper is constructed, the user selects columns 0 to 4 of line 0, the
  handler runs, the widget is shown and resized.
\<close>

theorem flags_exclusive_witness:
  "\<exists>w0 w1.
     constructor 1
       (example_options (Inr (example_editor \<lparr>line = 0, column = 0\<rparr> \<lparr>line = 0, column = 0\<rparr>)))
       = Inr w0 \<and>
     onSelectionsChanged
       (w0\<lparr>editor := example_editor \<lparr>line = 0, column = 0\<rparr> \<lparr>line = 0, column = 4\<rparr>,
           isVisible := True\<rparr>) = Inr w1 \<and>
     reachable (processMessage (Resize 80 24) w1) \<and>
     HAS_SELECTION_CLASS \<in> classList (processMessage (Resize 80 24) w1) \<and>
     HAS_IN_LEADING_WHITESPACE_CLASS \<notin> classList (processMessage (Resize 80 24) w1)"
proof -
  let ?ed0 = "example_editor \<lparr>line = 0, column = 0\<rparr> \<lparr>line = 0, column = 0\<rparr>"
  let ?ed1 = "example_editor \<lparr>line = 0, column = 0\<rparr> \<lparr>line = 0, column = 4\<rparr>"
  obtain w0 where c: "constructor 1 (example_options (Inr ?ed0)) = Inr w0"
    by (simp add: constructor_def Let_def example_options_def)
  have r0: "reachable w0"
    using c by (rule reachable.constructed)
  have r0': "reachable (w0\<lparr>editor := ?ed1, isVisible := True\<rparr>)"
    using r0 by (rule reachable.environment)
  obtain w1 where s: "onSelectionsChanged (w0\<lparr>editor := ?ed1, isVisible := True\<rparr>) = Inr w1"
    and sel: "HAS_SELECTION_CLASS \<in> classList w1"
    using flags_distinct by (simp add: onSelectionsChanged_def Let_def example_editor_def)
  have r1: "reachable w1"
    using r0' s by (rule reachable.selection_changed)
  have r2: "reachable (processMessage (Resize 80 24) w1)"
    using r1 by (rule reachable.message)
  have sel2: "HAS_SELECTION_CLASS \<in> classList (processMessage (Resize 80 24) w1)"
    using sel classList_processMessage [of "Resize 80 24" w1] by simp
  show ?thesis
    using flags_exclusive [of "processMessage (Resize 80 24) w1"] c s r2 sel2
    by blast
qed

end
